theory Spec2Isabelle
  imports Main "HOL-Library.Word"
begin

section \<open>GPIO pins over the sysfs control files\<close>

text \<open>
  A shallow embedding of the package \<open>gpio\<close>: \<open>sysfs.go\<close> (the attribute protocol) and the
  file that declares \<open>Pin\<close> (the lifecycle manager).

  The package is all effect: it opens, writes, reads and closes files of the kernel, asks
  whether a path is writable, reads the clock and sleeps. The kernel is not part of the
  package, so it is a parameter here: a record \<open>os\<close> of answer functions, each of which
  sees the whole \<open>world\<close> (the clock and every call made so far). The Go functions become
  functions from a world to a result and a new world. Theorems hold for every \<open>os\<close>.
\<close>

subsection \<open>Integers, enumerations, errors\<close>

text \<open>Go's \<open>uint\<close> on a 64-bit platform; \<open>int\<close> is the same width, read as signed.
  No property below depends on the width.\<close>

type_synonym go_uint = "64 word"

text \<open>\<open>type direction uint\<close> with \<open>inDirection = iota\<close> and \<open>outDirection\<close>: any \<open>uint\<close> is a
  \<open>direction\<close>, two of them have names.\<close>

type_synonym direction = go_uint

definition inDirection :: direction where
  "inDirection = 0"

definition outDirection :: direction where
  "outDirection = 1"

text \<open>\<open>const timeout = 1 * time.Second\<close> and the argument of \<open>time.Sleep\<close>, in nanoseconds
  as \<open>time.Duration\<close> counts them.\<close>

definition Millisecond :: nat where
  "Millisecond = 1000000"

definition Second :: nat where
  "Second = 1000 * Millisecond"

definition timeout :: nat where
  "timeout = 1 * Second"

text \<open>An \<open>*os.File\<close> is a pointer: the identity of a file object. \<open>nil\<close> is \<open>None\<close>.\<close>

type_synonym handle = nat

datatype oflag = O_RDONLY | O_WRONLY | O_RDWR

text \<open>Errors of the \<open>os\<close> package. \<open>ErrInvalid\<close> is what every method of \<open>*os.File\<close> returns on
  a \<open>nil\<close> receiver, \<open>ErrClosed\<close> what it returns on a closed file.\<close>

datatype oserr = ErrInvalid | ErrClosed | EOF | Errno nat

text \<open>
  The error values the package returns, one constructor for each place that makes one:
  \<^item> \<open>ExportFailure\<close>: "failed to open gpio export file for writing";
  \<^item> \<open>ExportTimeout n d\<close>: "Exporting pin n took more than d";
  \<^item> \<open>UnexportFailure\<close>: "failed to open gpio unexport file for writing";
  \<^item> \<open>DirectionOpenFailure n e\<close>: "failed to open gpio n direction file for writing: e";
  \<^item> \<open>InvalidConfiguration d v\<close>: "setDirection called with invalid direction or
    initialValue, d, v";
  \<^item> \<open>OpenFailure n\<close>: "failed to open gpio n value file for reading";
  \<^item> \<open>UnexpectedValueEncoding c\<close>: "read inconsistent value in pinfile, c";
  \<^item> \<open>InvalidValue v\<close>: "invalid output value v";
  \<^item> \<open>WrongDirection\<close>: "pin is not configured for output";
  \<^item> \<open>OSError e\<close>: an error of the \<open>os\<close> package returned as it came (a failed read or
    write).
\<close>

datatype error =
    ExportFailure
  | ExportTimeout go_uint nat
  | UnexportFailure
  | DirectionOpenFailure go_uint oserr
  | InvalidConfiguration direction go_uint
  | OpenFailure go_uint
  | UnexpectedValueEncoding char
  | InvalidValue go_uint
  | WrongDirection
  | OSError oserr

subsection \<open>The Pin\<close>

record Pin =
  Number :: go_uint
  direction :: direction
  f :: "handle option"

subsection \<open>The world outside the package\<close>

text \<open>Every call that reaches a file, the file system or the scheduler is recorded, oldest
  first. A method called on a \<open>nil\<close> file returns before it reaches anything and records
  nothing.\<close>

datatype event =
    EvOpen string oflag
  | EvWrite handle string
  | EvSeek handle int nat
  | EvRead handle nat
  | EvClose handle
  | EvAccess string
  | EvSleep nat

record world =
  clock :: nat
  trace :: "event list"

text \<open>The answers of the kernel. \<open>os_Sleep_extra\<close> is how much longer than asked a sleep
  lasts: \<open>time.Sleep\<close> pauses for at least the duration.\<close>

record os =
  os_OpenFile :: "world \<Rightarrow> string \<Rightarrow> oflag \<Rightarrow> oserr + handle"
  os_Write :: "world \<Rightarrow> handle \<Rightarrow> string \<Rightarrow> oserr option"
  os_Read :: "world \<Rightarrow> handle \<Rightarrow> oserr + char"
  os_Access :: "world \<Rightarrow> string \<Rightarrow> bool"
  os_Sleep_extra :: "world \<Rightarrow> nat"

definition record_event :: "event \<Rightarrow> world \<Rightarrow> world" where
  "record_event e w = w\<lparr>trace := trace w @ [e]\<rparr>"

text \<open>\<open>os.OpenFile(path, flag, 0600)\<close>; the permission bits matter only with \<open>O_CREATE\<close>,
  which is never passed.\<close>

definition OpenFile :: "os \<Rightarrow> string \<Rightarrow> oflag \<Rightarrow> world \<Rightarrow> (oserr + handle) \<times> world" where
  "OpenFile k path flag w = (os_OpenFile k w path flag, record_event (EvOpen path flag) w)"

text \<open>\<open>file.Write(b)\<close>, the error of its result.\<close>

definition File_Write :: "os \<Rightarrow> handle option \<Rightarrow> string \<Rightarrow> world \<Rightarrow> oserr option \<times> world" where
  "File_Write k file b w =
     (case file of
        None \<Rightarrow> (Some ErrInvalid, w)
      | Some h \<Rightarrow> (os_Write k w h b, record_event (EvWrite h b) w))"

text \<open>\<open>file.Seek(offset, whence)\<close>; the package drops both results.\<close>

definition File_Seek :: "handle option \<Rightarrow> int \<Rightarrow> nat \<Rightarrow> world \<Rightarrow> world" where
  "File_Seek file offset whence w =
     (case file of
        None \<Rightarrow> w
      | Some h \<Rightarrow> record_event (EvSeek h offset whence) w)"

text \<open>\<open>file.Read(buf)\<close> with a buffer of one byte: an error, or the byte now in \<open>buf[0]\<close>
  (a read of no bytes into a buffer that has room is \<open>io.EOF\<close>).\<close>

definition File_Read :: "os \<Rightarrow> handle option \<Rightarrow> world \<Rightarrow> (oserr + char) \<times> world" where
  "File_Read k file w =
     (case file of
        None \<Rightarrow> (Inl ErrInvalid, w)
      | Some h \<Rightarrow> (os_Read k w h, record_event (EvRead h 1) w))"

text \<open>\<open>file.Close()\<close>; the package drops its result.\<close>

definition File_Close :: "handle option \<Rightarrow> world \<Rightarrow> world" where
  "File_Close file w =
     (case file of
        None \<Rightarrow> w
      | Some h \<Rightarrow> record_event (EvClose h) w)"

text \<open>\<open>unix.Access(path, unix.W_OK) == nil\<close>.\<close>

definition Access_W_OK :: "os \<Rightarrow> string \<Rightarrow> world \<Rightarrow> bool \<times> world" where
  "Access_W_OK k path w = (os_Access k w path, record_event (EvAccess path) w)"

text \<open>\<open>time.Sleep(d)\<close>: the only thing that moves the clock of the model.\<close>

definition Sleep :: "os \<Rightarrow> nat \<Rightarrow> world \<Rightarrow> world" where
  "Sleep k d w = record_event (EvSleep d) (w\<lparr>clock := clock w + d + os_Sleep_extra k w\<rparr>)"

subsection \<open>Decimal numbers and paths\<close>

definition digit_char :: "nat \<Rightarrow> char" where
  "digit_char d = char_of (48 + d)"

function decimal :: "nat \<Rightarrow> string" where
  "decimal n = (if n < 10 then [digit_char n] else decimal (n div 10) @ [digit_char (n mod 10)])"
  by pat_completeness auto
termination
  by (relation "measure (\<lambda>n. n)") auto

declare decimal.simps [simp del]

text \<open>\<open>strconv.Itoa\<close>.\<close>

definition Itoa :: "int \<Rightarrow> string" where
  "Itoa i = (if i < 0 then CHR ''-'' # decimal (nat (- i)) else decimal (nat i))"

text \<open>\<open>fmt.Sprintf("/sys/class/gpio/gpio%d/direction", p.Number)\<close> and its sibling for the
  value file: \<open>%d\<close> of a \<open>uint\<close> is unsigned.\<close>

definition direction_path :: "Pin \<Rightarrow> string" where
  "direction_path p = ''/sys/class/gpio/gpio'' @ decimal (unat (Number p)) @ ''/direction''"

definition value_path :: "Pin \<Rightarrow> string" where
  "value_path p = ''/sys/class/gpio/gpio'' @ decimal (unat (Number p)) @ ''/value''"

subsection \<open>sysfs.go\<close>

text \<open>The loop of \<open>waitUntilWritable\<close>, with \<open>start\<close> as its local variable.
  \<open>time.Since(start)\<close> is the clock minus \<open>start\<close>.\<close>

function waitLoop :: "os \<Rightarrow> Pin \<Rightarrow> nat \<Rightarrow> world \<Rightarrow> error option \<times> world" where
  "waitLoop k p start w =
     (if clock w - start \<ge> timeout then (Some (ExportTimeout (Number p) timeout), w)
      else if fst (Access_W_OK k (direction_path p) w)
        then (None, snd (Access_W_OK k (direction_path p) w))
        else waitLoop k p start
               (Sleep k (10 * Millisecond) (snd (Access_W_OK k (direction_path p) w))))"
  by pat_completeness auto
termination
  by (relation "measure (\<lambda>(k, p, start, w). start + timeout - clock w)")
     (auto simp: Sleep_def Access_W_OK_def record_event_def Millisecond_def)

declare waitLoop.simps [simp del]

definition waitUntilWritable :: "os \<Rightarrow> Pin \<Rightarrow> world \<Rightarrow> error option \<times> world" where
  "waitUntilWritable k p w = waitLoop k p (clock w) w"

text \<open>The deferred \<open>export.Close()\<close> runs when the function returns, after the wait.\<close>

definition exportGPIO :: "os \<Rightarrow> Pin \<Rightarrow> world \<Rightarrow> error option \<times> world" where
  "exportGPIO k p w =
     (case OpenFile k ''/sys/class/gpio/export'' O_WRONLY w of
        (Inl err, w1) \<Rightarrow> (Some ExportFailure, w1)
      | (Inr export, w1) \<Rightarrow>
          (let w2 = snd (File_Write k (Some export) (Itoa (sint (Number p))) w1);
               (r, w3) = waitUntilWritable k p w2
           in (r, File_Close (Some export) w3)))"

definition unexportGPIO :: "os \<Rightarrow> Pin \<Rightarrow> world \<Rightarrow> error option \<times> world" where
  "unexportGPIO k p w =
     (case OpenFile k ''/sys/class/gpio/unexport'' O_WRONLY w of
        (Inl err, w1) \<Rightarrow> (Some UnexportFailure, w1)
      | (Inr export, w1) \<Rightarrow>
          (let w2 = snd (File_Write k (Some export) (Itoa (sint (Number p))) w1)
           in (None, File_Close (Some export) w2)))"

text \<open>\<open>_, err = dir.Write(...)\<close>: the error of the write, as it came.\<close>

definition write_token :: "os \<Rightarrow> handle \<Rightarrow> string \<Rightarrow> world \<Rightarrow> error option \<times> world" where
  "write_token k h token w =
     (case File_Write k (Some h) token w of (e, w') \<Rightarrow> (map_option OSError e, w'))"

definition setDirection :: "os \<Rightarrow> Pin \<Rightarrow> direction \<Rightarrow> go_uint \<Rightarrow> world \<Rightarrow> error option \<times> world" where
  "setDirection k p d initialValue w =
     (case OpenFile k (direction_path p) O_WRONLY w of
        (Inl err, w1) \<Rightarrow> (Some (DirectionOpenFailure (Number p) err), w1)
      | (Inr dir, w1) \<Rightarrow>
          (let (err, w2) =
                 (if d = inDirection then write_token k dir ''in'' w1
                  else if d = outDirection \<and> initialValue = 0 then write_token k dir ''low'' w1
                  else if d = outDirection \<and> initialValue = 1 then write_token k dir ''high'' w1
                  else (Some (InvalidConfiguration d initialValue), w1))
           in (err, File_Close (Some dir) w2)))"

definition openPin :: "os \<Rightarrow> Pin \<Rightarrow> bool \<Rightarrow> world \<Rightarrow> (Pin \<times> error option) \<times> world" where
  "openPin k p write w =
     (let flags = (if write then O_RDWR else O_RDONLY)
      in case OpenFile k (value_path p) flags w of
           (Inl err, w1) \<Rightarrow> ((p, Some (OpenFailure (Number p))), w1)
         | (Inr h, w1) \<Rightarrow> ((p\<lparr>f := Some h\<rparr>, None), w1))"

definition readPin :: "os \<Rightarrow> Pin \<Rightarrow> world \<Rightarrow> (go_uint \<times> error option) \<times> world" where
  "readPin k p w =
     (let file = f p;
          w1 = File_Seek file 0 0 w
      in case File_Read k file w1 of
           (Inl err, w2) \<Rightarrow> ((0, Some (OSError err)), w2)
         | (Inr c, w2) \<Rightarrow>
             (if c = CHR ''0'' then ((0, None), w2)
              else if c = CHR ''1'' then ((1, None), w2)
              else ((0, Some (UnexpectedValueEncoding c)), w2)))"

definition writePin :: "os \<Rightarrow> Pin \<Rightarrow> go_uint \<Rightarrow> world \<Rightarrow> error option \<times> world" where
  "writePin k p v w =
     (if v = 0 then
        (case File_Write k (f p) ''0'' w of (e, w') \<Rightarrow> (map_option OSError e, w'))
      else if v = 1 then
        (case File_Write k (f p) ''1'' w of (e, w') \<Rightarrow> (map_option OSError e, w'))
      else (Some (InvalidValue v), w))"

subsection \<open>The Pin's methods\<close>

definition NewInput :: "os \<Rightarrow> go_uint \<Rightarrow> world \<Rightarrow> (Pin \<times> error option) \<times> world" where
  "NewInput k n w =
     (let pin = \<lparr>Number = n, direction = 0, f = None\<rparr>
      in case exportGPIO k pin w of
           (Some err, w1) \<Rightarrow> ((pin, Some err), w1)
         | (None, w1) \<Rightarrow>
             (let pin = pin\<lparr>direction := inDirection\<rparr>
              in case setDirection k pin inDirection 0 w1 of
                   (Some err, w2) \<Rightarrow> ((pin, Some err), w2)
                 | (None, w2) \<Rightarrow> openPin k pin False w2))"

definition NewOutput :: "os \<Rightarrow> go_uint \<Rightarrow> bool \<Rightarrow> world \<Rightarrow> (Pin \<times> error option) \<times> world" where
  "NewOutput k n initHigh w =
     (let pin = \<lparr>Number = n, direction = 0, f = None\<rparr>
      in case exportGPIO k pin w of
           (Some err, w1) \<Rightarrow> ((pin, Some err), w1)
         | (None, w1) \<Rightarrow>
             (let initVal = (if initHigh then 1 else 0);
                  pin = pin\<lparr>direction := outDirection\<rparr>
              in case setDirection k pin outDirection initVal w1 of
                   (Some err, w2) \<Rightarrow> ((pin, Some err), w2)
                 | (None, w2) \<Rightarrow> openPin k pin True w2))"

text \<open>
  \<open>func (p Pin) Close()\<close> has a value receiver: the method works on its own copy of the
  Pin and returns nothing. \<open>Close_receiver\<close> is the body, with the copy as it stands when
  the method returns; \<open>Close\<close> is the call as the caller sees it, the copy gone.
\<close>

definition Close_receiver :: "Pin \<Rightarrow> world \<Rightarrow> Pin \<times> world" where
  "Close_receiver p w =
     (if f p \<noteq> None then (p\<lparr>f := None\<rparr>, File_Close (f p) w) else (p, w))"

definition Close :: "Pin \<Rightarrow> world \<Rightarrow> world" where
  "Close p w = snd (Close_receiver p w)"

definition Cleanup :: "os \<Rightarrow> Pin \<Rightarrow> world \<Rightarrow> error option \<times> world" where
  "Cleanup k p w = unexportGPIO k p (Close p w)"

definition Read :: "os \<Rightarrow> Pin \<Rightarrow> world \<Rightarrow> (go_uint \<times> error option) \<times> world" where
  "Read k p w = readPin k p w"

definition High :: "os \<Rightarrow> Pin \<Rightarrow> world \<Rightarrow> error option \<times> world" where
  "High k p w =
     (if direction p \<noteq> outDirection then (Some WrongDirection, w) else writePin k p 1 w)"

definition Low :: "os \<Rightarrow> Pin \<Rightarrow> world \<Rightarrow> error option \<times> world" where
  "Low k p w =
     (if direction p \<noteq> outDirection then (Some WrongDirection, w) else writePin k p 0 w)"

subsection \<open>Kernels and worlds to run the package on\<close>

text \<open>A kernel that gives the same answer to every call of a kind, and sleeps exactly as
  long as asked; and the world at the start, the clock at zero and nothing called yet.\<close>

definition kernel_always :: "(oserr + handle) \<Rightarrow> oserr option \<Rightarrow> (oserr + char) \<Rightarrow> bool \<Rightarrow> os" where
  "kernel_always opened written byte writable =
     \<lparr>os_OpenFile = (\<lambda>w path flag. opened), os_Write = (\<lambda>w h b. written),
      os_Read = (\<lambda>w h. byte), os_Access = (\<lambda>w path. writable), os_Sleep_extra = (\<lambda>w. 0)\<rparr>"

definition boot :: world where
  "boot = \<lparr>clock = 0, trace = []\<rparr>"

text \<open>One round of the loop of \<open>waitUntilWritable\<close> that did not return: the probe of the
  direction file, then the sleep of 10 ms. \<open>(poll_again k p ^^ n) w\<close> is the world after
  \<open>n\<close> such rounds.\<close>

definition poll_again :: "os \<Rightarrow> Pin \<Rightarrow> world \<Rightarrow> world" where
  "poll_again k p w = Sleep k (10 * Millisecond) (snd (Access_W_OK k (direction_path p) w))"

subsection \<open>The read path with the panics of Go\<close>

text \<open>
  A Go call returns or panics. Nothing in the package panics on purpose; what could
  panic on the way of \<open>Read\<close> is the use of a \<open>nil\<close> pointer and an index out of range.
  Here the read path is written once more with both as outcomes, to show that the
  functions above, which have no such outcome, leave nothing out.
\<close>

datatype 'a outcome = Panic | Return 'a

text \<open>
  Package \<open>os\<close>, which is not part of this package: every method of \<open>*File\<close> starts with
  \<open>checkValid\<close>, which answers \<open>ErrInvalid\<close> for a \<open>nil\<close> receiver, and only then uses
  the file behind the pointer, which is where a \<open>nil\<close> pointer would panic.
\<close>

definition checkValid :: "handle option \<Rightarrow> oserr option" where
  "checkValid file = (case file of None \<Rightarrow> Some ErrInvalid | Some h \<Rightarrow> None)"

definition deref :: "handle option \<Rightarrow> handle outcome" where
  "deref file = (case file of None \<Rightarrow> Panic | Some h \<Rightarrow> Return h)"

text \<open>\<open>buf[i]\<close>.\<close>

definition index_byte :: "char list \<Rightarrow> nat \<Rightarrow> char outcome" where
  "index_byte buf i = (if i < length buf then Return (buf ! i) else Panic)"

text \<open>\<open>file.Seek(offset, whence)\<close>, results dropped.\<close>

definition Seek_run :: "handle option \<Rightarrow> int \<Rightarrow> nat \<Rightarrow> world \<Rightarrow> world outcome" where
  "Seek_run file offset whence w =
     (case checkValid file of
        Some err \<Rightarrow> Return w
      | None \<Rightarrow>
          (case deref file of
             Panic \<Rightarrow> Panic
           | Return h \<Rightarrow> Return (record_event (EvSeek h offset whence) w)))"

text \<open>\<open>_, err := file.Read(buf)\<close>: the buffer after the call, and the error.\<close>

definition Read_into ::
  "os \<Rightarrow> handle option \<Rightarrow> char list \<Rightarrow> world \<Rightarrow> ((char list \<times> oserr option) \<times> world) outcome" where
  "Read_into k file buf w =
     (case checkValid file of
        Some err \<Rightarrow> Return ((buf, Some err), w)
      | None \<Rightarrow>
          (case deref file of
             Panic \<Rightarrow> Panic
           | Return h \<Rightarrow>
               (case os_Read k w h of
                  Inl err \<Rightarrow> Return ((buf, Some err), record_event (EvRead h (length buf)) w)
                | Inr c \<Rightarrow>
                    Return ((buf[0 := c], None), record_event (EvRead h (length buf)) w))))"

text \<open>\<open>readPin\<close>, statement by statement: \<open>buf := make([]byte, 1)\<close> is a buffer of one
  zero byte, and \<open>c := buf[0]\<close> comes after the test of \<open>err\<close>.\<close>

definition readPin_run :: "os \<Rightarrow> Pin \<Rightarrow> world \<Rightarrow> ((go_uint \<times> error option) \<times> world) outcome" where
  "readPin_run k p w =
     (let file = f p
      in case Seek_run file 0 0 w of
           Panic \<Rightarrow> Panic
         | Return w1 \<Rightarrow>
             (let buf = replicate 1 (CHR 0x00)
              in case Read_into k file buf w1 of
                   Panic \<Rightarrow> Panic
                 | Return ((buf, Some err), w2) \<Rightarrow> Return ((0, Some (OSError err)), w2)
                 | Return ((buf, None), w2) \<Rightarrow>
                     (case index_byte buf 0 of
                        Panic \<Rightarrow> Panic
                      | Return c \<Rightarrow>
                          (if c = CHR ''0'' then Return ((0, None), w2)
                           else if c = CHR ''1'' then Return ((1, None), w2)
                           else Return ((0, Some (UnexpectedValueEncoding c)), w2)))))"

definition Read_run :: "os \<Rightarrow> Pin \<Rightarrow> world \<Rightarrow> ((go_uint \<times> error option) \<times> world) outcome" where
  "Read_run k p w = readPin_run k p w"

text \<open>
  Package \<open>os\<close> again: a \<open>*File\<close> that has been closed answers \<open>ErrClosed\<close> to every
  later read and write. A handle names one file object for good, so a file is closed in
  a world when a \<open>Close\<close> of it is in the trace. \<open>go_files k\<close> is the kernel \<open>k\<close> behind
  such file objects.
\<close>

definition file_closed :: "world \<Rightarrow> handle \<Rightarrow> bool" where
  "file_closed w h = (EvClose h \<in> set (trace w))"

definition go_files :: "os \<Rightarrow> os" where
  "go_files k =
     k\<lparr>os_Write := (\<lambda>w h b. if file_closed w h then Some ErrClosed else os_Write k w h b),
       os_Read := (\<lambda>w h. if file_closed w h then Inl ErrClosed else os_Read k w h)\<rparr>"

section \<open>Properties\<close>

subsection \<open>The loop of waitUntilWritable\<close>

lemma waitLoop_timed_out:
  "timeout \<le> clock w - start \<Longrightarrow>
   waitLoop k p start w = (Some (ExportTimeout (Number p) timeout), w)"
  by (subst waitLoop.simps) simp

lemma waitLoop_writable_now:
  "clock w - start < timeout \<Longrightarrow> os_Access k w (direction_path p) \<Longrightarrow>
   waitLoop k p start w = (None, record_event (EvAccess (direction_path p)) w)"
  by (subst waitLoop.simps) (simp add: Access_W_OK_def)

lemma waitLoop_poll_again:
  "clock w - start < timeout \<Longrightarrow> \<not> os_Access k w (direction_path p) \<Longrightarrow>
   waitLoop k p start w = waitLoop k p start (poll_again k p w)"
  by (subst waitLoop.simps) (simp add: Access_W_OK_def poll_again_def)

lemma clock_poll_again:
  "clock (poll_again k p w) =
     clock w + 10 * Millisecond + os_Sleep_extra k (record_event (EvAccess (direction_path p)) w)"
  by (simp add: poll_again_def Sleep_def Access_W_OK_def record_event_def)

lemma clock_polls_lower: "clock w + n * (10 * Millisecond) \<le> clock ((poll_again k p ^^ n) w)"
proof (induction n arbitrary: w)
  case 0
  show ?case by simp
next
  case (Suc n)
  have "clock w + Suc n * (10 * Millisecond) \<le> clock (poll_again k p w) + n * (10 * Millisecond)"
    by (simp add: clock_poll_again)
  also have "\<dots> \<le> clock ((poll_again k p ^^ n) (poll_again k p w))"
    by (rule Suc.IH)
  finally show ?case by (simp add: funpow_swap1)
qed

lemma trace_polls:
  "trace ((poll_again k p ^^ n) w) =
     trace w @ concat (replicate n [EvAccess (direction_path p), EvSleep (10 * Millisecond)])"
proof (induction n arbitrary: w)
  case 0
  show ?case by simp
next
  case (Suc n)
  have "trace (poll_again k p w) =
          trace w @ [EvAccess (direction_path p), EvSleep (10 * Millisecond)]"
    by (simp add: poll_again_def Sleep_def Access_W_OK_def record_event_def)
  with Suc.IH [of "poll_again k p w"] show ?case
    by (simp add: funpow_swap1)
qed

text \<open>The loop run from any world: it makes some number \<open>n\<close> of rounds that find the file
  not writable and the time not up, and returns in the world after them.\<close>

lemma waitLoop_polls:
  "\<exists>n. (\<forall>j<n. clock ((poll_again k p ^^ j) w) - start < timeout
               \<and> \<not> os_Access k ((poll_again k p ^^ j) w) (direction_path p))
     \<and> (if timeout \<le> clock ((poll_again k p ^^ n) w) - start
        then waitLoop k p start w =
               (Some (ExportTimeout (Number p) timeout), (poll_again k p ^^ n) w)
        else os_Access k ((poll_again k p ^^ n) w) (direction_path p)
           \<and> waitLoop k p start w =
               (None, record_event (EvAccess (direction_path p)) ((poll_again k p ^^ n) w)))"
proof (induction k p start w rule: waitLoop.induct)
  case (1 k p start w)
  show ?case
  proof (cases "timeout \<le> clock w - start")
    case True
    then have "waitLoop k p start w = (Some (ExportTimeout (Number p) timeout), w)"
      by (rule waitLoop_timed_out)
    with True show ?thesis by (intro exI [of _ 0]) simp
  next
    case early: False
    show ?thesis
    proof (cases "os_Access k w (direction_path p)")
      case True
      with early have "waitLoop k p start w = (None, record_event (EvAccess (direction_path p)) w)"
        by (simp add: waitLoop_writable_now)
      with True early show ?thesis by (intro exI [of _ 0]) simp
    next
      case False
      let ?w = "poll_again k p w"
      from early False have step: "waitLoop k p start w = waitLoop k p start ?w"
        by (simp add: waitLoop_poll_again)
      from early False
      have "\<not> timeout \<le> clock w - start" "\<not> fst (Access_W_OK k (direction_path p) w)"
        by (simp_all add: Access_W_OK_def)
      from "1.IH" [OF this] obtain n where
        before: "\<forall>j<n. clock ((poll_again k p ^^ j) ?w) - start < timeout
                    \<and> \<not> os_Access k ((poll_again k p ^^ j) ?w) (direction_path p)"
        and at: "if timeout \<le> clock ((poll_again k p ^^ n) ?w) - start
            then waitLoop k p start ?w =
               (Some (ExportTimeout (Number p) timeout), (poll_again k p ^^ n) ?w)
            else os_Access k ((poll_again k p ^^ n) ?w) (direction_path p)
               \<and> waitLoop k p start ?w =
               (None, record_event (EvAccess (direction_path p)) ((poll_again k p ^^ n) ?w))"
        unfolding poll_again_def by blast
      have "\<forall>j<Suc n. clock ((poll_again k p ^^ j) w) - start < timeout
                    \<and> \<not> os_Access k ((poll_again k p ^^ j) w) (direction_path p)"
      proof (intro allI impI)
        fix j assume "j < Suc n"
        show "clock ((poll_again k p ^^ j) w) - start < timeout
                    \<and> \<not> os_Access k ((poll_again k p ^^ j) w) (direction_path p)"
        proof (cases j)
          case 0
          with early False show ?thesis by simp
        next
          case (Suc i)
          with \<open>j < Suc n\<close> have "i < n" by simp
          with before Suc show ?thesis by (simp add: funpow_swap1)
        qed
      qed
      moreover from at step
      have "if timeout \<le> clock ((poll_again k p ^^ Suc n) w) - start
            then waitLoop k p start w =
               (Some (ExportTimeout (Number p) timeout), (poll_again k p ^^ Suc n) w)
            else os_Access k ((poll_again k p ^^ Suc n) w) (direction_path p)
               \<and> waitLoop k p start w =
               (None, record_event (EvAccess (direction_path p)) ((poll_again k p ^^ Suc n) w))"
        by (simp add: funpow_swap1)
      ultimately show ?thesis by blast
    qed
  qed
qed

text \<open>
  Claim C5. \<open>waitUntilWritable\<close> always returns, after at most 100 rounds of probing the
  direction file and sleeping 10 ms. Every round before the last found the file not
  writable with less than the timeout of one second gone; \<open>n\<close> rounds take at least
  \<open>n\<close> times 10 ms and are, in the trace, \<open>n\<close> times a probe and a sleep of 10 ms. It returns no error at the first probe that finds the file writable;
  it returns the timeout error, which carries the pin number and the timeout, only when a
  second or more has gone by since it started.
\<close>

theorem waitUntilWritable_bounded_poll:
  "\<exists>n\<le>100.
     (\<forall>j<n. clock ((poll_again k p ^^ j) w) - clock w < timeout
           \<and> \<not> os_Access k ((poll_again k p ^^ j) w) (direction_path p))
     \<and> clock w + n * (10 * Millisecond) \<le> clock ((poll_again k p ^^ n) w)
     \<and> trace ((poll_again k p ^^ n) w) =
         trace w @ concat (replicate n [EvAccess (direction_path p), EvSleep (10 * Millisecond)])
     \<and> (if timeout \<le> clock ((poll_again k p ^^ n) w) - clock w
        then waitUntilWritable k p w =
               (Some (ExportTimeout (Number p) timeout), (poll_again k p ^^ n) w)
        else os_Access k ((poll_again k p ^^ n) w) (direction_path p)
           \<and> waitUntilWritable k p w =
               (None, record_event (EvAccess (direction_path p)) ((poll_again k p ^^ n) w)))"
proof -
  from waitLoop_polls [where k = k and p = p and start = "clock w" and w = w] obtain n where
    before: "\<forall>j<n. clock ((poll_again k p ^^ j) w) - clock w < timeout
               \<and> \<not> os_Access k ((poll_again k p ^^ j) w) (direction_path p)"
    and at: "if timeout \<le> clock ((poll_again k p ^^ n) w) - clock w
        then waitLoop k p (clock w) w =
               (Some (ExportTimeout (Number p) timeout), (poll_again k p ^^ n) w)
        else os_Access k ((poll_again k p ^^ n) w) (direction_path p)
           \<and> waitLoop k p (clock w) w =
               (None, record_event (EvAccess (direction_path p)) ((poll_again k p ^^ n) w))"
    by blast
  have "n \<le> 100"
  proof (cases n)
    case 0
    then show ?thesis by simp
  next
    case (Suc m)
    with before have "clock ((poll_again k p ^^ m) w) - clock w < timeout" by simp
    moreover have "clock w + m * (10 * Millisecond) \<le> clock ((poll_again k p ^^ m) w)"
      by (rule clock_polls_lower)
    ultimately have "m * (10 * Millisecond) < timeout" by linarith
    then have "m < 100" by (simp add: timeout_def Second_def Millisecond_def)
    with Suc show ?thesis by simp
  qed
  with before at clock_polls_lower [of w n k p] trace_polls [where k = k and p = p and n = n and w = w] show ?thesis
    unfolding waitUntilWritable_def by blast
qed

lemma clock_polls_exact:
  "clock ((poll_again (kernel_always a b c d) p ^^ n) w) = clock w + n * (10 * Millisecond)"
proof (induction n arbitrary: w)
  case 0
  show ?case by simp
next
  case (Suc n)
  have "clock (poll_again (kernel_always a b c d) p w) = clock w + 10 * Millisecond"
    by (simp add: clock_poll_again kernel_always_def)
  with Suc.IH [of "poll_again (kernel_always a b c d) p w"] show ?case
    by (simp add: funpow_swap1)
qed

text \<open>On a kernel that never makes the file writable and sleeps exactly 10 ms, the wait
  fails after exactly 100 rounds, one second after its start; on a kernel where the file is
  writable at once, it succeeds at the first probe.\<close>

theorem waitUntilWritable_bounded_poll_witness:
  "waitUntilWritable (kernel_always (Inr 3) None (Inl EOF) False)
       \<lparr>Number = 4, direction = 0, f = None\<rparr> boot
     = (Some (ExportTimeout 4 timeout),
        (poll_again (kernel_always (Inr 3) None (Inl EOF) False)
           \<lparr>Number = 4, direction = 0, f = None\<rparr> ^^ 100) boot)
   \<and> clock ((poll_again (kernel_always (Inr 3) None (Inl EOF) False)
               \<lparr>Number = 4, direction = 0, f = None\<rparr> ^^ 100) boot)
     = timeout
   \<and> waitUntilWritable (kernel_always (Inr 3) None (Inl EOF) True)
       \<lparr>Number = 4, direction = 0, f = None\<rparr> boot
     = (None, record_event (EvAccess (direction_path \<lparr>Number = 4, direction = 0, f = None\<rparr>)) boot)"
proof -
  let ?p = "\<lparr>Number = 4, direction = 0, f = None\<rparr>"
  let ?never = "kernel_always (Inr 3) None (Inl EOF) False"
  let ?ready = "kernel_always (Inr 3) None (Inl EOF) True"
  have never: "\<not> os_Access ?never w path" for w path
    by (simp add: kernel_always_def)
  have ready: "os_Access ?ready w path" for w path
    by (simp add: kernel_always_def)
  from waitUntilWritable_bounded_poll [of ?never ?p boot] obtain n where
    n: "n \<le> 100"
    and at: "if timeout \<le> clock ((poll_again ?never ?p ^^ n) boot) - clock boot
        then waitUntilWritable ?never ?p boot =
               (Some (ExportTimeout (Number ?p) timeout), (poll_again ?never ?p ^^ n) boot)
        else os_Access ?never ((poll_again ?never ?p ^^ n) boot) (direction_path ?p)
           \<and> waitUntilWritable ?never ?p boot =
               (None, record_event (EvAccess (direction_path ?p)) ((poll_again ?never ?p ^^ n) boot))"
    by blast
  from at never have late: "timeout \<le> clock ((poll_again ?never ?p ^^ n) boot) - clock boot"
    by (simp split: if_splits)
  then have "100 \<le> n"
    by (simp add: clock_polls_exact boot_def timeout_def Second_def Millisecond_def)
  with n have "n = 100" by simp
  with at late have first: "waitUntilWritable ?never ?p boot
     = (Some (ExportTimeout 4 timeout), (poll_again ?never ?p ^^ 100) boot)"
    by simp
  have second: "clock ((poll_again ?never ?p ^^ 100) boot) = timeout"
    by (simp add: clock_polls_exact boot_def timeout_def Second_def Millisecond_def)
  from waitUntilWritable_bounded_poll [of ?ready ?p boot] obtain m where
    before: "\<forall>j<m. clock ((poll_again ?ready ?p ^^ j) boot) - clock boot < timeout
               \<and> \<not> os_Access ?ready ((poll_again ?ready ?p ^^ j) boot) (direction_path ?p)"
    and at': "if timeout \<le> clock ((poll_again ?ready ?p ^^ m) boot) - clock boot
        then waitUntilWritable ?ready ?p boot =
               (Some (ExportTimeout (Number ?p) timeout), (poll_again ?ready ?p ^^ m) boot)
        else os_Access ?ready ((poll_again ?ready ?p ^^ m) boot) (direction_path ?p)
           \<and> waitUntilWritable ?ready ?p boot =
               (None, record_event (EvAccess (direction_path ?p)) ((poll_again ?ready ?p ^^ m) boot))"
    by blast
  have "m = 0"
  proof (rule ccontr)
    assume "m \<noteq> 0"
    then have "0 < m" by simp
    with before have "\<not> os_Access ?ready ((poll_again ?ready ?p ^^ 0) boot) (direction_path ?p)"
      by blast
    with ready show False by blast
  qed
  with at' have third: "waitUntilWritable ?ready ?p boot
     = (None, record_event (EvAccess (direction_path ?p)) boot)"
    by (simp add: timeout_def Second_def Millisecond_def)
  from first second third show ?thesis by blast
qed

subsection \<open>Export\<close>

text \<open>The loop never asks for the outcome of a write.\<close>

lemma waitLoop_ignores_os_Write:
  "waitLoop (k\<lparr>os_Write := wr\<rparr>) p start w = waitLoop k p start w"
proof (induction k p start w rule: waitLoop.induct)
  case (1 k p start w)
  show ?case
  proof (cases "timeout \<le> clock w - start")
    case True
    then show ?thesis by (simp add: waitLoop_timed_out)
  next
    case early: False
    show ?thesis
    proof (cases "os_Access k w (direction_path p)")
      case True
      with early show ?thesis by (simp add: waitLoop_writable_now)
    next
      case False
      from early False
      have "\<not> timeout \<le> clock w - start" "\<not> fst (Access_W_OK k (direction_path p) w)"
        by (simp_all add: Access_W_OK_def)
      from "1.IH" [OF this]
      have "waitLoop (k\<lparr>os_Write := wr\<rparr>) p start (poll_again k p w)
              = waitLoop k p start (poll_again k p w)"
        by (simp add: poll_again_def)
      moreover have "poll_again (k\<lparr>os_Write := wr\<rparr>) p w = poll_again k p w"
        by (simp add: poll_again_def Sleep_def Access_W_OK_def)
      ultimately show ?thesis
        using early False by (simp add: waitLoop_poll_again)
    qed
  qed
qed

text \<open>
  Claim C1, as the spec states it, fails: on a kernel that opens the export file, rejects
  the write of the pin number with \<open>EBUSY\<close> (errno 16, the pin is exported already) and has
  the pin's direction file writable, \<open>exportGPIO\<close> returns no error.
\<close>

theorem exportGPIO_rejected_write_counterexample:
  "os_Write (kernel_always (Inr 3) (Some (Errno 16)) (Inl EOF) True)
      (record_event (EvOpen ''/sys/class/gpio/export'' O_WRONLY) boot) 3
      (Itoa (sint (4 :: go_uint)))
     = Some (Errno 16)
   \<and> fst (exportGPIO (kernel_always (Inr 3) (Some (Errno 16)) (Inl EOF) True)
            \<lparr>Number = 4, direction = 0, f = None\<rparr> boot) = None"
  by (simp add: exportGPIO_def waitUntilWritable_def waitLoop_writable_now
      OpenFile_def File_Write_def File_Close_def
      record_event_def boot_def kernel_always_def timeout_def Second_def Millisecond_def Let_def)

text \<open>
  Claim C1, amended. \<open>exportGPIO\<close> fails with \<open>ExportFailure\<close> whenever the export file
  cannot be opened for writing. When it opens, the decimal pin number is written to it and
  the result of \<open>exportGPIO\<close> is the result of the wait for the pin's direction file to
  become writable; the outcome of the write is never looked at: with any other answers to
  writes, \<open>exportGPIO\<close> does the same.
\<close>

theorem exportGPIO_result_is_the_wait:
  "fst (exportGPIO k p w) =
     (case os_OpenFile k w ''/sys/class/gpio/export'' O_WRONLY of
        Inl e \<Rightarrow> Some ExportFailure
      | Inr h \<Rightarrow>
          fst (waitUntilWritable k p
                 (w\<lparr>trace := trace w @ [EvOpen ''/sys/class/gpio/export'' O_WRONLY,
                                         EvWrite h (Itoa (sint (Number p)))]\<rparr>)))
   \<and> exportGPIO (k\<lparr>os_Write := wr\<rparr>) p w = exportGPIO k p w"
  by (simp add: exportGPIO_def waitUntilWritable_def waitLoop_ignores_os_Write OpenFile_def
      File_Write_def File_Close_def record_event_def Let_def split: sum.splits prod.splits)

subsection \<open>Close and Cleanup\<close>

text \<open>
  Claim C2 is what the code misses. With \<open>p\<close> a Pin that holds the open file 3, the Go
  statements \<open>p.Close(); p.Close()\<close> call \<open>Close\<close> on the file twice: the first call set
  \<open>f\<close> to \<open>nil\<close> in its own copy of the Pin only.
\<close>

theorem Close_twice_closes_twice:
  "trace (Close \<lparr>Number = 4, direction = outDirection, f = Some 3\<rparr>
            (Close \<lparr>Number = 4, direction = outDirection, f = Some 3\<rparr> boot))
     = [EvClose 3, EvClose 3]"
  by (simp add: Close_def Close_receiver_def File_Close_def record_event_def boot_def)

text \<open>
  Claim C3 is what the code misses, by the same value receiver. When \<open>Close\<close> returns, the
  handle is \<open>nil\<close> in the copy the method worked on; the caller's Pin is as it was. With
  \<open>p\<close> a Pin that holds the file 3, \<open>p.Close(); p.Read()\<close> seeks and reads the closed file
  3 (and gets its \<open>ErrClosed\<close>), where a Pin with a \<open>nil\<close> handle would reach no file.
\<close>

theorem Close_leaves_the_callers_handle:
  "fst (Close_receiver \<lparr>Number = 4, direction = inDirection, f = Some 3\<rparr> boot)
     = \<lparr>Number = 4, direction = inDirection, f = None\<rparr>
   \<and> trace (snd (Read (kernel_always (Inr 3) None (Inl ErrClosed) True)
                  \<lparr>Number = 4, direction = inDirection, f = Some 3\<rparr>
                  (Close \<lparr>Number = 4, direction = inDirection, f = Some 3\<rparr> boot)))
     = [EvClose 3, EvSeek 3 0 0, EvRead 3 1]
   \<and> fst (Read (kernel_always (Inr 3) None (Inl ErrClosed) True)
                  \<lparr>Number = 4, direction = inDirection, f = Some 3\<rparr>
                  (Close \<lparr>Number = 4, direction = inDirection, f = Some 3\<rparr> boot))
     = (0, Some (OSError ErrClosed))"
  by (simp add: Close_def Close_receiver_def Read_def readPin_def File_Seek_def File_Read_def
      File_Close_def record_event_def boot_def kernel_always_def)

text \<open>
  Claim C8. \<open>Cleanup\<close> is \<open>unexportGPIO\<close> run in the world that \<open>Close\<close> leaves: what
  \<open>Close\<close> does to the file comes first in the trace, then the open of the unexport file,
  the write of the pin number and the close. Its result is the result of the unexport:
  \<open>UnexportFailure\<close> when the unexport file does not open, no error otherwise. \<open>Close\<close>
  has no result, so nothing of it can be returned.
\<close>

theorem Cleanup_Close_then_unexport:
  "Cleanup k p w = unexportGPIO k p (Close p w)
   \<and> Close p w = w\<lparr>trace := trace w @ (case f p of None \<Rightarrow> [] | Some h \<Rightarrow> [EvClose h])\<rparr>
   \<and> fst (Cleanup k p w) =
        (case os_OpenFile k (Close p w) ''/sys/class/gpio/unexport'' O_WRONLY of
           Inl e \<Rightarrow> Some UnexportFailure
         | Inr u \<Rightarrow> None)
   \<and> trace (snd (Cleanup k p w)) =
        trace (Close p w) @ EvOpen ''/sys/class/gpio/unexport'' O_WRONLY #
        (case os_OpenFile k (Close p w) ''/sys/class/gpio/unexport'' O_WRONLY of
           Inl e \<Rightarrow> []
         | Inr u \<Rightarrow> [EvWrite u (Itoa (sint (Number p))), EvClose u])"
  by (simp add: Cleanup_def unexportGPIO_def Close_def Close_receiver_def OpenFile_def
      File_Write_def File_Close_def record_event_def Let_def split: sum.splits option.splits)

subsection \<open>setDirection\<close>

text \<open>
  Claim C6. Once the direction file is open, \<open>setDirection\<close> writes to it exactly one
  token and closes it: "in" for the input direction, "low" for the output direction with
  initial value 0, "high" for the output direction with initial value 1; its result is the
  error of that write, if any. For every other pair of direction and value it writes
  nothing, closes the file and fails with \<open>InvalidConfiguration\<close>.
\<close>

theorem setDirection_tokens:
  assumes "os_OpenFile k w (direction_path p) O_WRONLY = Inr h"
  shows "setDirection k p inDirection v w =
           (map_option OSError
              (os_Write k (record_event (EvOpen (direction_path p) O_WRONLY) w) h ''in''),
            w\<lparr>trace := trace w @
                 [EvOpen (direction_path p) O_WRONLY, EvWrite h ''in'', EvClose h]\<rparr>)
       \<and> setDirection k p outDirection 0 w =
           (map_option OSError
              (os_Write k (record_event (EvOpen (direction_path p) O_WRONLY) w) h ''low''),
            w\<lparr>trace := trace w @
                 [EvOpen (direction_path p) O_WRONLY, EvWrite h ''low'', EvClose h]\<rparr>)
       \<and> setDirection k p outDirection 1 w =
           (map_option OSError
              (os_Write k (record_event (EvOpen (direction_path p) O_WRONLY) w) h ''high''),
            w\<lparr>trace := trace w @
                 [EvOpen (direction_path p) O_WRONLY, EvWrite h ''high'', EvClose h]\<rparr>)
       \<and> (d \<noteq> inDirection \<and> \<not> (d = outDirection \<and> (v = 0 \<or> v = 1)) \<longrightarrow>
          setDirection k p d v w =
            (Some (InvalidConfiguration d v),
             w\<lparr>trace := trace w @ [EvOpen (direction_path p) O_WRONLY, EvClose h]\<rparr>))"
  using assms
  by (auto simp: setDirection_def OpenFile_def write_token_def File_Write_def File_Close_def
      record_event_def inDirection_def outDirection_def Let_def)

text \<open>A direction that has no name, and the output direction with the initial value 2:
  both are refused, and the trace has the open and the close only.\<close>

theorem setDirection_tokens_witness:
  "setDirection (kernel_always (Inr 7) None (Inl EOF) True)
       \<lparr>Number = 4, direction = 0, f = None\<rparr> 2 0 boot =
     (Some (InvalidConfiguration 2 0),
      \<lparr>clock = 0,
       trace = [EvOpen (direction_path \<lparr>Number = 4, direction = 0, f = None\<rparr>) O_WRONLY,
                EvClose 7]\<rparr>)
   \<and> setDirection (kernel_always (Inr 7) None (Inl EOF) True)
       \<lparr>Number = 4, direction = 0, f = None\<rparr> outDirection 2 boot =
     (Some (InvalidConfiguration outDirection 2),
      \<lparr>clock = 0,
       trace = [EvOpen (direction_path \<lparr>Number = 4, direction = 0, f = None\<rparr>) O_WRONLY,
                EvClose 7]\<rparr>)
   \<and> setDirection (kernel_always (Inr 7) None (Inl EOF) True)
       \<lparr>Number = 4, direction = 0, f = None\<rparr> outDirection 1 boot =
     (None,
      \<lparr>clock = 0,
       trace = [EvOpen (direction_path \<lparr>Number = 4, direction = 0, f = None\<rparr>) O_WRONLY,
                EvWrite 7 ''high'', EvClose 7]\<rparr>)"
  using
    setDirection_tokens [where k = "kernel_always (Inr 7) None (Inl EOF) True" and w = boot
      and p = "\<lparr>Number = 4, direction = 0, f = None\<rparr>" and h = 7 and d = 2 and v = 0]
    setDirection_tokens [where k = "kernel_always (Inr 7) None (Inl EOF) True" and w = boot
      and p = "\<lparr>Number = 4, direction = 0, f = None\<rparr>" and h = 7 and d = outDirection
      and v = 2]
  by (simp add: kernel_always_def boot_def inDirection_def outDirection_def)

subsection \<open>Reading and writing the value\<close>

text \<open>
  Claim C7. On a Pin that holds a file, \<open>readPin\<close> seeks to offset 0 from the start of
  the file and then reads one byte, and does nothing else. It returns 0 for the byte
  \<open>'0'\<close> and 1 for the byte \<open>'1'\<close>; for any other byte it fails with
  \<open>UnexpectedValueEncoding\<close> of that byte; when the read fails, it fails with the error
  of the read.
\<close>

theorem readPin_one_byte:
  "snd (readPin k (p\<lparr>f := Some h\<rparr>) w) = w\<lparr>trace := trace w @ [EvSeek h 0 0, EvRead h 1]\<rparr>
   \<and> (os_Read k (record_event (EvSeek h 0 0) w) h = Inr CHR ''0'' \<longrightarrow>
        fst (readPin k (p\<lparr>f := Some h\<rparr>) w) = (0, None))
   \<and> (os_Read k (record_event (EvSeek h 0 0) w) h = Inr CHR ''1'' \<longrightarrow>
        fst (readPin k (p\<lparr>f := Some h\<rparr>) w) = (1, None))
   \<and> (\<forall>c. os_Read k (record_event (EvSeek h 0 0) w) h = Inr c
          \<and> c \<noteq> CHR ''0'' \<and> c \<noteq> CHR ''1'' \<longrightarrow>
        fst (readPin k (p\<lparr>f := Some h\<rparr>) w) = (0, Some (UnexpectedValueEncoding c)))
   \<and> (\<forall>e. os_Read k (record_event (EvSeek h 0 0) w) h = Inl e \<longrightarrow>
        fst (readPin k (p\<lparr>f := Some h\<rparr>) w) = (0, Some (OSError e)))"
  by (simp add: readPin_def File_Seek_def File_Read_def record_event_def Let_def
      split: sum.splits)

text \<open>The four cases, each on a kernel whose reads give that answer.\<close>

theorem readPin_one_byte_witness:
  "fst (readPin (kernel_always (Inr 3) None (Inr CHR ''0'') True)
          \<lparr>Number = 4, direction = inDirection, f = Some 3\<rparr> boot) = (0, None)
   \<and> fst (readPin (kernel_always (Inr 3) None (Inr CHR ''1'') True)
          \<lparr>Number = 4, direction = inDirection, f = Some 3\<rparr> boot) = (1, None)
   \<and> fst (readPin (kernel_always (Inr 3) None (Inr CHR ''x'') True)
          \<lparr>Number = 4, direction = inDirection, f = Some 3\<rparr> boot)
       = (0, Some (UnexpectedValueEncoding CHR ''x''))
   \<and> fst (readPin (kernel_always (Inr 3) None (Inl EOF) True)
          \<lparr>Number = 4, direction = inDirection, f = Some 3\<rparr> boot)
       = (0, Some (OSError EOF))"
  using
    readPin_one_byte [where k = "kernel_always (Inr 3) None (Inr CHR ''0'') True"
      and p = "\<lparr>Number = 4, direction = inDirection, f = None\<rparr>" and h = 3 and w = boot]
    readPin_one_byte [where k = "kernel_always (Inr 3) None (Inr CHR ''1'') True"
      and p = "\<lparr>Number = 4, direction = inDirection, f = None\<rparr>" and h = 3 and w = boot]
    readPin_one_byte [where k = "kernel_always (Inr 3) None (Inr CHR ''x'') True"
      and p = "\<lparr>Number = 4, direction = inDirection, f = None\<rparr>" and h = 3 and w = boot]
    readPin_one_byte [where k = "kernel_always (Inr 3) None (Inl EOF) True"
      and p = "\<lparr>Number = 4, direction = inDirection, f = None\<rparr>" and h = 3 and w = boot]
  by (simp add: kernel_always_def)

lemma readPin_nil: "f p = None \<Longrightarrow> readPin k p w = ((0, Some (OSError ErrInvalid)), w)"
  by (simp add: readPin_def File_Seek_def File_Read_def)

text \<open>A constructor that returns an error returns a Pin that holds no file.\<close>

lemma NewInput_failed_nil:
  "snd (fst (NewInput k n w)) \<noteq> None \<Longrightarrow> f (fst (fst (NewInput k n w))) = None"
  by (simp add: NewInput_def openPin_def Let_def split: prod.splits option.splits sum.splits)

lemma NewOutput_failed_nil:
  "snd (fst (NewOutput k n b w)) \<noteq> None \<Longrightarrow> f (fst (fst (NewOutput k n b w))) = None"
  by (cases b)
     (simp_all add: NewOutput_def openPin_def Let_def split: prod.splits option.splits sum.splits)

text \<open>The read path has no way to the panic: a \<open>nil\<close> handle stops at \<open>checkValid\<close>,
  and the buffer that is indexed at 0 has one byte. So \<open>readPin\<close> is all of it.\<close>

lemma readPin_run_returns: "readPin_run k p w = Return (readPin k p w)"
  by (cases "f p")
     (auto simp: readPin_run_def readPin_def Seek_run_def Read_into_def checkValid_def deref_def
       index_byte_def File_Seek_def File_Read_def Let_def split: sum.splits)

text \<open>The Pin that \<open>Close\<close> worked on holds no file when \<open>Close\<close> returns; the caller's
  Pin still holds the file, now closed, and a read of it is refused by the file object.\<close>

lemma Close_receiver_nil: "f (fst (Close_receiver p w)) = None"
  by (simp add: Close_receiver_def)

lemma Read_after_Close:
  "Read (go_files k) (p\<lparr>f := Some h\<rparr>) (Close (p\<lparr>f := Some h\<rparr>) w) =
     ((0, Some (OSError ErrClosed)),
      w\<lparr>trace := trace w @ [EvClose h, EvSeek h 0 0, EvRead h 1]\<rparr>)"
  by (simp add: Read_def readPin_def Close_def Close_receiver_def File_Close_def File_Seek_def
      File_Read_def record_event_def go_files_def file_closed_def)

text \<open>
  Claim C10. \<open>Read\<close> never panics: on every Pin, in every world and on every kernel, the
  read path with the panics of Go returns, and returns what \<open>Read\<close> is here. On a Pin
  whose handle is \<open>nil\<close> it returns the value 0 with the error \<open>ErrInvalid\<close> of the \<open>os\<close>
  package, and reaches no file. The Pins the claim names are covered:
  \<^item> a Pin never opened has a \<open>nil\<close> handle;
  \<^item> the Pin that \<open>NewInput\<close> or \<open>NewOutput\<close> returns together with an error has a \<open>nil\<close>
    handle;
  \<^item> a Pin already closed has a \<open>nil\<close> handle in the copy that \<open>Close\<close> worked on, and in
    the caller's hands it still holds the closed file: there \<open>Read\<close> seeks and reads that
    file and returns the value 0 with the error \<open>ErrClosed\<close> of its file object.
\<close>

theorem Read_nil_handle_is_an_error:
  "Read_run k p w = Return (Read k p w)
   \<and> Read k (p\<lparr>f := None\<rparr>) w = ((0, Some (OSError ErrInvalid)), w)
   \<and> (snd (fst (NewInput k n w0)) \<noteq> None \<longrightarrow>
        Read k (fst (fst (NewInput k n w0))) w = ((0, Some (OSError ErrInvalid)), w))
   \<and> (snd (fst (NewOutput k n b w0)) \<noteq> None \<longrightarrow>
        Read k (fst (fst (NewOutput k n b w0))) w = ((0, Some (OSError ErrInvalid)), w))
   \<and> Read k (fst (Close_receiver p w0)) w = ((0, Some (OSError ErrInvalid)), w)
   \<and> Read (go_files k) (p\<lparr>f := Some h\<rparr>) (Close (p\<lparr>f := Some h\<rparr>) w) =
        ((0, Some (OSError ErrClosed)),
         w\<lparr>trace := trace w @ [EvClose h, EvSeek h 0 0, EvRead h 1]\<rparr>)"
  by (simp add: Read_run_def readPin_run_returns Read_after_Close Close_receiver_nil)
     (simp add: Read_def readPin_nil NewInput_failed_nil NewOutput_failed_nil
       Close_receiver_nil)

text \<open>On a kernel that opens no file, \<open>NewInput\<close> and \<open>NewOutput\<close> fail at the export and
  \<open>Read\<close> on the Pin they return is the error, with no panic. On a kernel that would
  answer every read with the byte \<open>'1'\<close>, \<open>Read\<close> on a Pin after \<open>Close\<close> is the error of
  the closed file.\<close>

theorem Read_nil_handle_is_an_error_witness:
  "fst (NewInput (kernel_always (Inl (Errno 13)) None (Inr CHR ''1'') True) 4 boot)
     = (\<lparr>Number = 4, direction = 0, f = None\<rparr>, Some ExportFailure)
   \<and> Read (kernel_always (Inl (Errno 13)) None (Inr CHR ''1'') True)
        (fst (fst (NewInput (kernel_always (Inl (Errno 13)) None (Inr CHR ''1'') True) 4 boot)))
        boot
     = ((0, Some (OSError ErrInvalid)), boot)
   \<and> Read (kernel_always (Inl (Errno 13)) None (Inr CHR ''1'') True)
        (fst (fst (NewOutput (kernel_always (Inl (Errno 13)) None (Inr CHR ''1'') True) 4 True
                     boot)))
        boot
     = ((0, Some (OSError ErrInvalid)), boot)
   \<and> Read_run (kernel_always (Inl (Errno 13)) None (Inr CHR ''1'') True)
        \<lparr>Number = 4, direction = 0, f = None\<rparr> boot
     = Return ((0, Some (OSError ErrInvalid)), boot)
   \<and> Read (go_files (kernel_always (Inl (Errno 13)) None (Inr CHR ''1'') True))
        \<lparr>Number = 4, direction = 0, f = Some 3\<rparr>
        (Close \<lparr>Number = 4, direction = 0, f = Some 3\<rparr> boot)
     = ((0, Some (OSError ErrClosed)),
        \<lparr>clock = 0, trace = [EvClose 3, EvSeek 3 0 0, EvRead 3 1]\<rparr>)"
  using
    Read_nil_handle_is_an_error [where k = "kernel_always (Inl (Errno 13)) None (Inr CHR ''1'') True"
      and n = 4 and ?w0.0 = boot and w = boot and b = True
      and p = "\<lparr>Number = 4, direction = 0, f = None\<rparr>" and h = 3]
  by (simp add: NewInput_def NewOutput_def exportGPIO_def OpenFile_def kernel_always_def
      boot_def)

text \<open>
  Claim C9, as the spec states it, fails: there is one type of Pin and \<open>Read\<close> looks at
  no direction. The Pin that \<open>NewOutput\<close> returns has the output direction, and \<open>Read\<close>
  on it returns the value read, here 1, with no error.
\<close>

theorem Read_on_output_pin_counterexample:
  "fst (NewOutput (kernel_always (Inr 3) None (Inr CHR ''1'') True) 4 True boot)
     = (\<lparr>Number = 4, direction = outDirection, f = Some 3\<rparr>, None)
   \<and> fst (Read (kernel_always (Inr 3) None (Inr CHR ''1'') True)
             \<lparr>Number = 4, direction = outDirection, f = Some 3\<rparr>
             (snd (NewOutput (kernel_always (Inr 3) None (Inr CHR ''1'') True) 4 True boot)))
     = (1, None)"
  by (simp add: NewOutput_def exportGPIO_def waitUntilWritable_def waitLoop_writable_now
      setDirection_def openPin_def write_token_def OpenFile_def File_Write_def File_Close_def
      Read_def readPin_def File_Seek_def File_Read_def
      record_event_def boot_def kernel_always_def timeout_def Second_def Millisecond_def
      outDirection_def inDirection_def Let_def)

text \<open>
  Claim C9, amended. \<open>Read\<close> has no direction gate: for every Pin, of either direction,
  it is \<open>readPin\<close> on that Pin, and what it does is the same whatever the direction
  field holds.
\<close>

theorem Read_has_no_direction_gate:
  "Read k p w = readPin k p w \<and> Read k (p\<lparr>direction := d\<rparr>) w = Read k p w"
  by (simp add: Read_def readPin_def)

subsection \<open>High and Low\<close>

lemma inDirection_not_outDirection: "inDirection \<noteq> outDirection"
  by (simp add: inDirection_def outDirection_def)

text \<open>Whatever \<open>NewInput\<close> returns, with or without an error, has the input direction.\<close>

lemma NewInput_direction: "direction (fst (fst (NewInput k n w))) = inDirection"
  by (simp add: NewInput_def openPin_def inDirection_def Let_def
      split: prod.splits option.splits sum.splits)

text \<open>
  Claim C4. On the Pin that \<open>NewInput\<close> returns, and on any Pin of the input direction,
  \<open>High\<close> and \<open>Low\<close> fail with \<open>WrongDirection\<close> and leave the world as it was: no file is
  written. On a Pin of the output direction \<open>High\<close> is \<open>writePin\<close> with 1 and \<open>Low\<close> is
  \<open>writePin\<close> with 0.
\<close>

theorem High_Low_direction_gate:
  "High k (fst (fst (NewInput k n w))) w' = (Some WrongDirection, w')
   \<and> Low k (fst (fst (NewInput k n w))) w' = (Some WrongDirection, w')
   \<and> High k (p\<lparr>direction := inDirection\<rparr>) w' = (Some WrongDirection, w')
   \<and> Low k (p\<lparr>direction := inDirection\<rparr>) w' = (Some WrongDirection, w')
   \<and> High k (p\<lparr>direction := outDirection\<rparr>) w' = writePin k (p\<lparr>direction := outDirection\<rparr>) 1 w'
   \<and> Low k (p\<lparr>direction := outDirection\<rparr>) w' = writePin k (p\<lparr>direction := outDirection\<rparr>) 0 w'"
  by (simp add: High_def Low_def NewInput_direction inDirection_not_outDirection)

end
